theory Spec2Isabelle
  imports Complex_Main
begin

section \<open>Data model\<close>

text \<open>
  A sample is a JavaScript object \<open>{input, output}\<close>. The source tests membership with
  \<open>Array.prototype.includes\<close>, which compares objects by identity, so every sample
  carries the identity of its object in \<open>ident\<close>: two samples are the same object exactly
  when they are equal as records, and two objects with the same contents differ in
  \<open>ident\<close>.
\<close>

record sample =
  ident :: nat
  s_input :: string
  s_output :: string

text \<open>
  Exceptions are values. \<open>TypeError\<close> is what the JavaScript runtime raises in
  \<open>index.js\<close> itself (a property read or a destructuring of \<open>undefined\<close>); the other
  errors come from the collaborators.
\<close>

datatype error = TypeError | InvalidRatio | IOFailure | DeserializationFailure

text \<open>
  The value of a JavaScript number expression \<open>a / b\<close> on counts: a quotient, \<open>NaN\<close> for
  \<open>0 / 0\<close> and \<open>Infinity\<close> for a positive count over zero. \<open>Undefined\<close> is a property
  that was never set.
\<close>

datatype jsval = Undefined | Num rat | NaN | Infinity

definition js_div :: "nat \<Rightarrow> nat \<Rightarrow> jsval" where
  "js_div a b =
     (if b = 0 then (if a = 0 then NaN else Infinity)
      else Num (rat_of_nat a / rat_of_nat b))"

text \<open>
  The fields of limdu's \<open>PrecisionRecall\<close> that \<open>getStats\<close> reads. The confusion matrix
  is only passed on, so its type is left open.
\<close>

record 'm PrecisionRecall =
  count :: nat
  TP :: nat
  TN :: nat
  FP :: nat
  FN :: nat
  Precision :: jsval
  Accuracy :: jsval
  Recall :: jsval
  F1 :: jsval
  confusion :: 'm

text \<open>
  The options object of the constructor, the object that \<open>toJSON\<close> builds and
  \<open>fromJSON\<close> reads, and the object that \<open>crossValidate\<close> returns. A property that is
  absent is \<open>None\<close>.
\<close>

record 'b Options =
  dataset :: "sample list option"
  trainSplit :: "rat option"
  classifier :: "'b option"

record ('b, 'm) JSON =
  classifier :: "string option"
  classifierBuilder :: "'b option"
  dataset :: "sample list option"
  trainSplit :: "rat option"
  trainSet :: "sample list option"
  testSet :: "sample list option"
  macroAvg :: "'m PrecisionRecall option"
  microAvg :: "'m PrecisionRecall option"

record 'r CrossValidation =
  macroAvg :: 'r
  microAvg :: 'r

text \<open>
  The Learner object: \<open>'c\<close> is the classifier, \<open>'b\<close> the classifier builder.
  \<open>macroAvg\<close> and \<open>microAvg\<close> are unset (\<open>None\<close>) until \<open>crossValidate\<close> or
  \<open>fromJSON\<close> assigns them.
\<close>

record ('c, 'b, 'm) Learner =
  dataset :: "sample list"
  trainSplit :: rat
  trainSet :: "sample list"
  testSet :: "sample list"
  classifier :: 'c
  classifierBuilder :: 'b
  macroAvg :: "'m PrecisionRecall option"
  microAvg :: "'m PrecisionRecall option"

text \<open>
  Everything \<open>index.js\<close> requires: the modules \<open>./src/conv\<close>, \<open>./src/classifier\<close>,
  \<open>./src/categories\<close>, the packages \<open>train-test-split\<close>, \<open>limdu\<close>, \<open>serialization\<close> and
  \<open>fs\<close>, and the methods of the classifier. They are parameters of the model. A
  collaborator that mutates an object in place returns the object after the call.
  \<open>fs_writeFile\<close> and \<open>fs_readFile\<close> give the arguments their callback receives.
\<close>

record ('c, 'b, 'm, 'r) collaborators =
  labelDS :: "sample list"
  classifierBuilder_default :: 'b
  categories :: "string list"
  trainTestSplit :: "sample list \<Rightarrow> rat \<Rightarrow> error + (sample list \<times> sample list)"
  build :: "'b \<Rightarrow> 'c"
  trainBatch :: "'c \<Rightarrow> sample list \<Rightarrow> 'c"
  classify :: "'c \<Rightarrow> string \<Rightarrow> string"
  limdu_partitions :: "sample list \<Rightarrow> nat \<Rightarrow> (sample list \<times> sample list) list"
  limdu_test :: "'c \<Rightarrow> sample list \<Rightarrow> nat \<Rightarrow> 'm PrecisionRecall \<Rightarrow> 'm PrecisionRecall
                   \<Rightarrow> 'm PrecisionRecall \<times> 'm PrecisionRecall"
  new_PrecisionRecall :: "'m PrecisionRecall"
  calculateStats :: "'m PrecisionRecall \<Rightarrow> 'm PrecisionRecall"
  calculateMacroAverageStats :: "'m PrecisionRecall \<Rightarrow> nat \<Rightarrow> 'm PrecisionRecall"
  fullStats :: "'m PrecisionRecall \<Rightarrow> 'r"
  serialize_toString :: "'c \<Rightarrow> 'b \<Rightarrow> string"
  serialize_fromString :: "string option \<Rightarrow> error + 'c"
  fs_writeFile :: "string \<Rightarrow> string \<Rightarrow> error option"
  fs_readFile :: "string \<Rightarrow> error + string"

section \<open>getCategoryPartition and getStats\<close>

record partition_counts =
  overall :: nat
  test :: nat
  train :: nat

type_synonym category_partition = "string \<rightharpoonup> partition_counts"

text \<open>\<open>categories.forEach(cat => { res[cat] = {overall: 0, test: 0, train: 0} })\<close>\<close>

definition init_partition :: "string list \<Rightarrow> category_partition" where
  "init_partition cats =
     foldl (\<lambda>res cat. res(cat \<mapsto> \<lparr>overall = 0, test = 0, train = 0\<rparr>)) Map.empty cats"

text \<open>
  The body of \<open>this.dataset.forEach(data => ...)\<close>. Reading \<open>.overall\<close> of a missing
  entry raises a \<open>TypeError\<close>. (An output that names a property of \<open>Object.prototype\<close>
  finds that property instead; the model does not follow outputs outside the
  categories any further.)
\<close>

definition count_sample ::
  "('c, 'b, 'm) Learner \<Rightarrow> category_partition \<Rightarrow> sample \<Rightarrow> error + category_partition" where
  "count_sample L res data =
     (case res (s_output data) of
        None \<Rightarrow> Inl TypeError
      | Some c \<Rightarrow>
          let c1 = c\<lparr>overall := overall c + 1\<rparr>;
              c2 = (if data \<in> set (trainSet L) then c1\<lparr>train := train c1 + 1\<rparr> else c1);
              c3 = (if data \<in> set (testSet L) then c2\<lparr>test := test c2 + 1\<rparr> else c2)
          in Inr (res(s_output data \<mapsto> c3)))"

fun forEach_sample ::
  "('c, 'b, 'm) Learner \<Rightarrow> sample list \<Rightarrow> category_partition \<Rightarrow> error + category_partition" where
  "forEach_sample L [] res = Inr res"
| "forEach_sample L (data # ds) res =
     (case count_sample L res data of
        Inl e \<Rightarrow> Inl e
      | Inr res' \<Rightarrow> forEach_sample L ds res')"

text \<open>
  A method is a function from the learner before the call to its result and the learner
  after the call.
\<close>

definition getCategoryPartition ::
  "('c, 'b, 'm, 'r) collaborators \<Rightarrow> ('c, 'b, 'm) Learner
     \<Rightarrow> (error + category_partition) \<times> ('c, 'b, 'm) Learner" where
  "getCategoryPartition ext L =
     (forEach_sample L (dataset L) (init_partition (categories ext)), L)"

record 'm Stats =
  TP :: nat
  TN :: nat
  FP :: nat
  FN :: nat
  confusion :: 'm
  Precision :: jsval
  Accuracy :: jsval
  Recall :: jsval
  F1 :: jsval
  Specificity :: jsval
  totalCount :: nat
  trainCount :: nat
  testCount :: nat
  categoryPartition :: category_partition

text \<open>
  \<open>getStats\<close> destructures \<open>this.microAvg\<close> first, which raises a \<open>TypeError\<close> when the
  field is unset, and then builds the report.
\<close>

definition getStats ::
  "('c, 'b, 'm, 'r) collaborators \<Rightarrow> ('c, 'b, 'm) Learner
     \<Rightarrow> (error + 'm Stats) \<times> ('c, 'b, 'm) Learner" where
  "getStats ext L =
     (case microAvg L of
        None \<Rightarrow> (Inl TypeError, L)
      | Some m \<Rightarrow>
          (case getCategoryPartition ext L of
             (Inl e, L') \<Rightarrow> (Inl e, L')
           | (Inr cp, L') \<Rightarrow>
               (Inr \<lparr>Stats.TP = PrecisionRecall.TP m,
                     TN = PrecisionRecall.TN m,
                     FP = PrecisionRecall.FP m,
                     FN = PrecisionRecall.FN m,
                     confusion = PrecisionRecall.confusion m,
                     Precision = PrecisionRecall.Precision m,
                     Accuracy = PrecisionRecall.Accuracy m,
                     Recall = PrecisionRecall.Recall m,
                     F1 = PrecisionRecall.F1 m,
                     Specificity =
                       js_div (PrecisionRecall.TN m)
                         (PrecisionRecall.FP m + PrecisionRecall.TN m),
                     totalCount = count m,
                     trainCount = length (trainSet L'),
                     testCount = length (testSet L'),
                     categoryPartition = cp\<rparr>, L')))"

section \<open>Construction and training\<close>

text \<open>
  The constructor: the defaults of the options, the split computed at once by
  \<open>trainTestSplit\<close> (whose exception, if any, leaves the constructor), and the
  classifier built by the builder.
\<close>

definition Learner_new ::
  "('c, 'b, 'm, 'r) collaborators \<Rightarrow> 'b Options \<Rightarrow> error + ('c, 'b, 'm) Learner" where
  "Learner_new ext opts =
     (let ds = (case Options.dataset opts of None \<Rightarrow> labelDS ext | Some d \<Rightarrow> d);
          r = (case Options.trainSplit opts of None \<Rightarrow> 4 / 5 | Some x \<Rightarrow> x);
          b = (case Options.classifier opts of
                 None \<Rightarrow> classifierBuilder_default ext | Some f \<Rightarrow> f)
      in case trainTestSplit ext ds r of
           Inl e \<Rightarrow> Inl e
         | Inr (tr, te) \<Rightarrow>
             Inr \<lparr>Learner.dataset = ds, Learner.trainSplit = r, Learner.trainSet = tr,
                  Learner.testSet = te, Learner.classifier = build ext b,
                  Learner.classifierBuilder = b, Learner.macroAvg = None,
                  Learner.microAvg = None\<rparr>)"

text \<open>
  The calls that \<open>crossValidate\<close> makes to its collaborators, in order, each with the
  arguments it receives: the classifier as it is when the call starts, the sample sets,
  the accumulators. \<open>Call_stdout_write\<close> is the line written when the argument
  \<open>log\<close> (here \<open>logging\<close>) is set.
\<close>

datatype ('c, 'm) call =
    Call_stdout_write nat nat
  | Call_trainBatch 'c "sample list"
  | Call_test 'c "sample list" nat "'m PrecisionRecall" "'m PrecisionRecall"
  | Call_calculateMacroAverageStats "'m PrecisionRecall" nat
  | Call_calculateStats "'m PrecisionRecall"
  | Call_fullStats "'m PrecisionRecall"

text \<open>
  \<open>train(trainSet = this.trainSet)\<close>: one \<open>trainBatch\<close> on the learner's classifier,
  which is mutated in place. (The spinner is console decoration and is left out.)
\<close>

definition train ::
  "('c, 'b, 'm, 'r) collaborators \<Rightarrow> sample list option
     \<Rightarrow> ('c, 'b, 'm) Learner \<times> ('c, 'm) call list
     \<Rightarrow> ('c, 'b, 'm) Learner \<times> ('c, 'm) call list" where
  "train ext arg = (\<lambda>(L, cs).
     let ts = (case arg of None \<Rightarrow> Learner.trainSet L | Some t \<Rightarrow> t)
     in (L\<lparr>Learner.classifier := trainBatch ext (Learner.classifier L) ts\<rparr>,
         cs @ [Call_trainBatch (Learner.classifier L) ts]))"

section \<open>crossValidate\<close>

text \<open>
  The callback given to \<open>partitions.partitions\<close>. limdu's \<open>test\<close> mutates the two
  accumulator objects it is given; the fields keep referring to them. Inside
  \<open>crossValidate\<close> both fields are set when the callback runs; where one is unset the
  model leaves the accumulators alone.
\<close>

definition cv_callback ::
  "('c, 'b, 'm, 'r) collaborators \<Rightarrow> nat \<Rightarrow> bool \<Rightarrow> sample list \<times> sample list
     \<Rightarrow> ('c, 'b, 'm) Learner \<times> ('c, 'm) call list
     \<Rightarrow> ('c, 'b, 'm) Learner \<times> ('c, 'm) call list" where
  "cv_callback ext verboseLevel logging = (\<lambda>(trainSet', testSet') (L, cs).
     let cs0 = (if logging then cs @ [Call_stdout_write (length trainSet') (length testSet')]
                else cs);
         (L1, cs1) = train ext (Some trainSet') (L, cs0)
     in case (Learner.microAvg L1, Learner.macroAvg L1) of
          (Some mi, Some ma) \<Rightarrow>
            (let (mi', ma') = limdu_test ext (Learner.classifier L1) testSet' verboseLevel mi ma
             in (L1\<lparr>Learner.macroAvg := Some ma', Learner.microAvg := Some mi'\<rparr>,
                 cs1 @ [Call_test (Learner.classifier L1) testSet' verboseLevel mi ma]))
        | _ \<Rightarrow> (L1, cs1))"

text \<open>
  \<open>crossValidate(numOfFolds, verboseLevel, log)\<close>: the result, the learner after the
  call and the calls made. A method call on an unset field would raise a \<open>TypeError\<close>.
\<close>

definition crossValidate ::
  "('c, 'b, 'm, 'r) collaborators \<Rightarrow> nat \<Rightarrow> nat \<Rightarrow> bool \<Rightarrow> ('c, 'b, 'm) Learner
     \<Rightarrow> (error + 'r CrossValidation) \<times> ('c, 'b, 'm) Learner \<times> ('c, 'm) call list" where
  "crossValidate ext numOfFolds verboseLevel logging L =
     (let L0 = L\<lparr>Learner.macroAvg := Some (new_PrecisionRecall ext)\<rparr>
                \<lparr>Learner.microAvg := Some (new_PrecisionRecall ext)\<rparr>;
          (L1, cs1) = foldl (\<lambda>s p. cv_callback ext verboseLevel logging p s) (L0, [])
                        (limdu_partitions ext (Learner.dataset L0) numOfFolds)
      in case Learner.macroAvg L1 of
           None \<Rightarrow> (Inl TypeError, L1, cs1)
         | Some ma \<Rightarrow>
             (let ma' = calculateMacroAverageStats ext ma numOfFolds;
                  L2 = L1\<lparr>Learner.macroAvg := Some ma'\<rparr>;
                  cs2 = cs1 @ [Call_calculateMacroAverageStats ma numOfFolds]
              in case Learner.microAvg L2 of
                   None \<Rightarrow> (Inl TypeError, L2, cs2)
                 | Some mi \<Rightarrow>
                     (let mi' = calculateStats ext mi;
                          L3 = L2\<lparr>Learner.microAvg := Some mi'\<rparr>;
                          cs3 = cs2 @ [Call_calculateStats mi]
                      in (Inr \<lparr>CrossValidation.macroAvg = fullStats ext ma',
                                CrossValidation.microAvg = fullStats ext mi'\<rparr>,
                          L3, cs3 @ [Call_fullStats ma', Call_fullStats mi']))))"

section \<open>Serialization and persistence\<close>

definition serializeClassifier ::
  "('c, 'b, 'm, 'r) collaborators \<Rightarrow> ('c, 'b, 'm) Learner \<Rightarrow> string" where
  "serializeClassifier ext L =
     serialize_toString ext (Learner.classifier L) (Learner.classifierBuilder L)"

text \<open>The argument is \<open>None\<close> when the caller passes \<open>undefined\<close>.\<close>

definition deserializeClassifier ::
  "('c, 'b, 'm, 'r) collaborators \<Rightarrow> string option \<Rightarrow> error + 'c" where
  "deserializeClassifier ext serializedClassifier =
     serialize_fromString ext serializedClassifier"

text \<open>
  A promise settles once: \<open>resolve\<close> and \<open>reject\<close> change a pending promise and do
  nothing to a settled one.
\<close>

datatype 'v promise = Pending | Fulfilled 'v | Rejected error

definition resolve :: "'v promise \<Rightarrow> 'v \<Rightarrow> 'v promise" where
  "resolve p v = (case p of Pending \<Rightarrow> Fulfilled v | _ \<Rightarrow> p)"

definition reject :: "'v promise \<Rightarrow> error \<Rightarrow> 'v promise" where
  "reject p e = (case p of Pending \<Rightarrow> Rejected e | _ \<Rightarrow> p)"

datatype io_call =
    Call_writeFile string string
  | Call_readFile string
  | Call_toString
  | Call_fromString "string option"

text \<open>
  What a persistence method leaves behind once the callback of \<open>fs\<close> has run: the
  promise it returned, the exception thrown out of the callback (which no promise
  receives), and the calls made.
\<close>

record 'v async_result =
  promise :: "'v promise"
  uncaught :: "error option"
  io_calls :: "io_call list"

definition serializeAndSaveClassifier ::
  "('c, 'b, 'm, 'r) collaborators \<Rightarrow> string option \<Rightarrow> ('c, 'b, 'm) Learner
     \<Rightarrow> string async_result" where
  "serializeAndSaveClassifier ext arg L =
     (let file = (case arg of None \<Rightarrow> ''classifier.json'' | Some f \<Rightarrow> f);
          data = serializeClassifier ext L;
          err = fs_writeFile ext file data;
          p1 = (case err of Some e \<Rightarrow> reject Pending e | None \<Rightarrow> Pending);
          p2 = resolve p1 data
      in \<lparr>promise = p2, uncaught = None,
           io_calls = [Call_toString, Call_writeFile file data]\<rparr>)"

text \<open>
  The callback of \<open>readFile\<close> receives \<open>(err, undefined)\<close> on failure and
  \<open>(null, data)\<close> on success. After \<open>if (err) reject(err)\<close> the callback goes on to the
  next statement.
\<close>

definition loadAndDeserializeClassifier ::
  "('c, 'b, 'm, 'r) collaborators \<Rightarrow> string option \<Rightarrow> ('c, 'b, 'm) Learner
     \<Rightarrow> 'c async_result" where
  "loadAndDeserializeClassifier ext arg L =
     (let file = (case arg of None \<Rightarrow> ''classifier.json'' | Some f \<Rightarrow> f);
          (err, data) = (case fs_readFile ext file of
                           Inl e \<Rightarrow> (Some e, None)
                         | Inr d \<Rightarrow> (None, Some d));
          p1 = (case err of Some e \<Rightarrow> reject Pending e | None \<Rightarrow> Pending);
          cs = [Call_readFile file, Call_fromString data]
      in case deserializeClassifier ext data of
           Inl e' \<Rightarrow> \<lparr>promise = p1, uncaught = Some e', io_calls = cs\<rparr>
         | Inr classifier' \<Rightarrow>
             \<lparr>promise = resolve p1 classifier', uncaught = None, io_calls = cs\<rparr>)"

definition toJSON ::
  "('c, 'b, 'm, 'r) collaborators \<Rightarrow> ('c, 'b, 'm) Learner \<Rightarrow> ('b, 'm) JSON" where
  "toJSON ext L =
     \<lparr>JSON.classifier = Some (serializeClassifier ext L),
      JSON.classifierBuilder = Some (Learner.classifierBuilder L),
      JSON.dataset = Some (Learner.dataset L),
      JSON.trainSplit = Some (Learner.trainSplit L),
      JSON.trainSet = Some (Learner.trainSet L),
      JSON.testSet = Some (Learner.testSet L),
      JSON.macroAvg = Learner.macroAvg L,
      JSON.microAvg = Learner.microAvg L\<rparr>"

text \<open>
  The loop \<open>for (const prop in json)\<close> copies the properties named in
  \<open>ALLOWED_PROPS\<close> that the object has.
\<close>

definition copy_allowed_props ::
  "('b, 'm) JSON \<Rightarrow> ('c, 'b, 'm) Learner \<Rightarrow> ('c, 'b, 'm) Learner" where
  "copy_allowed_props json L =
     (let L1 = (case JSON.classifierBuilder json of
                  None \<Rightarrow> L | Some v \<Rightarrow> L\<lparr>Learner.classifierBuilder := v\<rparr>);
          L2 = (case JSON.trainSet json of
                  None \<Rightarrow> L1 | Some v \<Rightarrow> L1\<lparr>Learner.trainSet := v\<rparr>);
          L3 = (case JSON.testSet json of
                  None \<Rightarrow> L2 | Some v \<Rightarrow> L2\<lparr>Learner.testSet := v\<rparr>);
          L4 = (case JSON.macroAvg json of
                  None \<Rightarrow> L3 | Some v \<Rightarrow> L3\<lparr>Learner.macroAvg := Some v\<rparr>);
          L5 = (case JSON.microAvg json of
                  None \<Rightarrow> L4 | Some v \<Rightarrow> L4\<lparr>Learner.microAvg := Some v\<rparr>)
      in L5)"

definition fromJSON ::
  "('c, 'b, 'm, 'r) collaborators \<Rightarrow> ('b, 'm) JSON \<Rightarrow> error + ('c, 'b, 'm) Learner" where
  "fromJSON ext json =
     (case Learner_new ext \<lparr>Options.dataset = JSON.dataset json,
                            Options.trainSplit = JSON.trainSplit json,
                            Options.classifier = None\<rparr> of
        Inl e \<Rightarrow> Inl e
      | Inr newLearner \<Rightarrow>
          (let newLearner' = copy_allowed_props json newLearner
           in case deserializeClassifier ext (JSON.classifier json) of
                Inl e \<Rightarrow> Inl e
              | Inr c \<Rightarrow> Inr (newLearner'\<lparr>Learner.classifier := c\<rparr>)))"

section \<open>The specification's Partitioner and CrossValidator\<close>

text \<open>
  Modelled from the spec: the package \<open>train-test-split\<close> is not part of the sources.
  The specification's \<open>split(dataset, ratio)\<close> gives a training set of
  \<open>round(ratio * |dataset|)\<close> samples and a test set of the others, keeps the order of
  the dataset, does not shuffle, and fails with \<open>InvalidRatio\<close> when the ratio is not in
  \<open>(0, 1)\<close>. The ratio is an exact rational.
\<close>

definition split :: "sample list \<Rightarrow> rat \<Rightarrow> error + (sample list \<times> sample list)" where
  "split ds ratio =
     (if 0 < ratio \<and> ratio < 1
      then (let n = nat (round (ratio * rat_of_nat (length ds)))
            in Inr (take n ds, drop n ds))
      else Inl InvalidRatio)"

text \<open>
  The CrossValidator as the specification words it: a state machine over the folds,
  with an initial state, one transition per fold and a terminal step.
\<close>

record ('c, 'm) cv_state =
  foldIndex :: nat
  clf :: 'c
  microAcc :: "'m PrecisionRecall"
  macroAcc :: "'m PrecisionRecall"

definition cv_initial ::
  "('c, 'b, 'm, 'r) collaborators \<Rightarrow> 'c \<Rightarrow> ('c, 'm) cv_state" where
  "cv_initial ext c =
     \<lparr>foldIndex = 0, clf = c, microAcc = new_PrecisionRecall ext,
      macroAcc = new_PrecisionRecall ext\<rparr>"

definition cv_transition ::
  "('c, 'b, 'm, 'r) collaborators \<Rightarrow> nat \<Rightarrow> ('c, 'm) cv_state
     \<Rightarrow> sample list \<times> sample list \<Rightarrow> ('c, 'm) cv_state" where
  "cv_transition ext verboseLevel s = (\<lambda>(tr, te).
     let c' = trainBatch ext (clf s) tr;
         (mi, ma) = limdu_test ext c' te verboseLevel (microAcc s) (macroAcc s)
     in \<lparr>foldIndex = foldIndex s + 1, clf = c', microAcc = mi, macroAcc = ma\<rparr>)"

definition cv_run ::
  "('c, 'b, 'm, 'r) collaborators \<Rightarrow> nat \<Rightarrow> 'c \<Rightarrow> (sample list \<times> sample list) list
     \<Rightarrow> ('c, 'm) cv_state" where
  "cv_run ext verboseLevel c folds =
     foldl (cv_transition ext verboseLevel) (cv_initial ext c) folds"

definition cv_terminal ::
  "('c, 'b, 'm, 'r) collaborators \<Rightarrow> nat \<Rightarrow> ('c, 'm) cv_state \<Rightarrow> 'r CrossValidation" where
  "cv_terminal ext k s =
     \<lparr>CrossValidation.macroAvg = fullStats ext (calculateMacroAverageStats ext (macroAcc s) k),
      CrossValidation.microAvg = fullStats ext (calculateStats ext (microAcc s))\<rparr>"

text \<open>What a call is, without the states it was given.\<close>

datatype call_kind =
    Write | Train "sample list" | Test "sample list"
  | CalculateMacroAverageStats nat | CalculateStats | FullStats

fun kind :: "('c, 'm) call \<Rightarrow> call_kind" where
  "kind (Call_stdout_write a b) = Write"
| "kind (Call_trainBatch c ts) = Train ts"
| "kind (Call_test c ts v mi ma) = Test ts"
| "kind (Call_calculateMacroAverageStats ma k) = CalculateMacroAverageStats k"
| "kind (Call_calculateStats mi) = CalculateStats"
| "kind (Call_fullStats m) = FullStats"

fun is_Train :: "call_kind \<Rightarrow> bool" where
  "is_Train (Train ts) = True"
| "is_Train _ = False"

fun is_Test :: "call_kind \<Rightarrow> bool" where
  "is_Test (Test ts) = True"
| "is_Test _ = False"

fun is_trainBatch :: "('c, 'm) call \<Rightarrow> bool" where
  "is_trainBatch (Call_trainBatch c ts) = True"
| "is_trainBatch _ = False"

section \<open>A small instance of the collaborators\<close>

text \<open>
  An instance on which the model runs: the classifier is the number of samples it has
  been trained on and answers by its parity; it is serialized in unary. The partitioner
  cuts the dataset into contiguous folds. The accumulators count the samples tested.
  Only the file \<open>classifier.json\<close> can be read, and \<open>/readonly\<close> cannot be written.
\<close>

definition contiguous_folds :: "sample list \<Rightarrow> nat \<Rightarrow> (sample list \<times> sample list) list" where
  "contiguous_folds ds k =
     map (\<lambda>i. let a = i * length ds div k; b = (i + 1) * length ds div k
              in (take a ds @ drop b ds, take (b - a) (drop a ds))) [0..<k]"

definition zero_PrecisionRecall :: "unit PrecisionRecall" where
  "zero_PrecisionRecall =
     \<lparr>count = 0, PrecisionRecall.TP = 0, PrecisionRecall.TN = 0, PrecisionRecall.FP = 0,
      PrecisionRecall.FN = 0, PrecisionRecall.Precision = Undefined,
      PrecisionRecall.Accuracy = Undefined, PrecisionRecall.Recall = Undefined,
      PrecisionRecall.F1 = Undefined, PrecisionRecall.confusion = ()\<rparr>"

definition toy :: "(nat, unit, unit, unit PrecisionRecall) collaborators" where
  "toy =
     \<lparr>labelDS = [],
      classifierBuilder_default = (),
      categories = [''yes'', ''no''],
      trainTestSplit = split,
      build = (\<lambda>b. 0),
      trainBatch = (\<lambda>c ts. c + length ts),
      classify = (\<lambda>c x. if even c then ''yes'' else ''no''),
      limdu_partitions = contiguous_folds,
      limdu_test = (\<lambda>c te v mi ma.
        (mi\<lparr>count := count mi + length te\<rparr>, ma\<lparr>count := count ma + length te\<rparr>)),
      new_PrecisionRecall = zero_PrecisionRecall,
      calculateStats = (\<lambda>m. m),
      calculateMacroAverageStats = (\<lambda>m k. m),
      fullStats = (\<lambda>m. m),
      serialize_toString = (\<lambda>c b. replicate c (CHR ''x'')),
      serialize_fromString = (\<lambda>s. case s of None \<Rightarrow> Inl DeserializationFailure
                                           | Some t \<Rightarrow> Inr (length t)),
      fs_writeFile = (\<lambda>file data. if file = ''/readonly'' then Some IOFailure else None),
      fs_readFile = (\<lambda>file. if file = ''classifier.json'' then Inr ''xxx''
                             else Inl IOFailure)\<rparr>"

definition sample_of :: "nat \<Rightarrow> string \<Rightarrow> sample" where
  "sample_of i out = \<lparr>ident = i, s_input = ''text'', s_output = out\<rparr>"

definition four_samples :: "sample list" where
  "four_samples =
     [sample_of 0 ''yes'', sample_of 1 ''no'', sample_of 2 ''yes'', sample_of 3 ''no'']"

definition toy_learner :: "(nat, unit, unit) Learner" where
  "toy_learner =
     \<lparr>Learner.dataset = four_samples, Learner.trainSplit = 3 / 4,
      Learner.trainSet = take 3 four_samples, Learner.testSet = drop 3 four_samples,
      Learner.classifier = 0, Learner.classifierBuilder = (),
      Learner.macroAvg = None, Learner.microAvg = None\<rparr>"


text \<open>
  The counts of one category in closed form: what the loop over \<open>ds\<close> adds to the
  entry \<open>x\<close> of category \<open>c\<close>.
\<close>

definition tally ::
  "('c, 'b, 'm) Learner \<Rightarrow> sample list \<Rightarrow> string \<Rightarrow> partition_counts \<Rightarrow> partition_counts" where
  "tally L ds c x =
     \<lparr>overall = overall x + length (filter (\<lambda>d. s_output d = c) ds),
      test = test x + length (filter (\<lambda>d. s_output d = c \<and> d \<in> set (testSet L)) ds),
      train = partition_counts.train x + length (filter (\<lambda>d. s_output d = c \<and> d \<in> set (trainSet L)) ds)\<rparr>"

section \<open>Category partition\<close>

lemma foldl_init_partition:
  "foldl (\<lambda>res cat. res(cat \<mapsto> z)) m cats c = (if c \<in> set cats then Some z else m c)"
  by (induction cats arbitrary: m) auto

lemma init_partition_apply:
  "init_partition cats c =
     (if c \<in> set cats then Some \<lparr>overall = 0, test = 0, train = 0\<rparr> else None)"
  by (simp add: init_partition_def foldl_init_partition)

lemma forEach_sample_tally:
  "\<forall>d \<in> set ds. s_output d \<in> dom res \<Longrightarrow>
   forEach_sample L ds res = Inr (\<lambda>c. map_option (tally L ds c) (res c))"
proof (induction ds arbitrary: res)
  case Nil
  have "\<And>c. map_option (tally L [] c) (res c) = res c"
    by (simp add: tally_def option.map_ident_strong)
  then show ?case by simp
next
  case (Cons d ds)
  then obtain x where x: "res (s_output d) = Some x" by auto
  define x' where "x' = (let c1 = x\<lparr>overall := overall x + 1\<rparr>;
              c2 = (if d \<in> set (trainSet L) then c1\<lparr>train := partition_counts.train c1 + 1\<rparr> else c1);
              c3 = (if d \<in> set (testSet L) then c2\<lparr>test := test c2 + 1\<rparr> else c2) in c3)"
  have step: "count_sample L res d = Inr (res(s_output d \<mapsto> x'))"
    by (simp add: count_sample_def x x'_def Let_def)
  have dom': "\<forall>e \<in> set ds. s_output e \<in> dom (res(s_output d \<mapsto> x'))"
    using Cons.prems by auto
  have "forEach_sample L (d # ds) res = forEach_sample L ds (res(s_output d \<mapsto> x'))"
    by (simp add: step)
  also have "\<dots> = Inr (\<lambda>c. map_option (tally L ds c) ((res(s_output d \<mapsto> x')) c))"
    by (rule Cons.IH [OF dom'])
  also have "(\<lambda>c. map_option (tally L ds c) ((res(s_output d \<mapsto> x')) c))
             = (\<lambda>c. map_option (tally L (d # ds) c) (res c))"
  proof
    fix c
    show "map_option (tally L ds c) ((res(s_output d \<mapsto> x')) c)
          = map_option (tally L (d # ds) c) (res c)"
    proof (cases "c = s_output d")
      case True
      then show ?thesis by (simp add: x tally_def x'_def Let_def)
    next
      case False
      then have "tally L (d # ds) c = tally L ds c"
        by (auto simp: tally_def fun_eq_iff)
      with False show ?thesis by simp
    qed
  qed
  finally show ?case .
qed

lemma sum_list_indicator:
  "distinct cs \<Longrightarrow>
   sum_list (map (\<lambda>c. if x = c then 1 else (0::nat)) cs) = (if x \<in> set cs then 1 else 0)"
  by (induction cs) auto

lemma sum_list_count_outputs:
  "distinct cs \<Longrightarrow> \<forall>d \<in> set ds. f d \<in> set cs \<Longrightarrow>
   sum_list (map (\<lambda>c. length (filter (\<lambda>d. f d = c) ds)) cs) = length ds"
proof (induction ds)
  case Nil
  then show ?case by simp
next
  case (Cons d ds)
  have "sum_list (map (\<lambda>c. length (filter (\<lambda>e. f e = c) (d # ds))) cs)
        = sum_list (map (\<lambda>c. (if f d = c then 1 else 0) + length (filter (\<lambda>e. f e = c) ds)) cs)"
    by (rule arg_cong [where f = sum_list]) (rule map_cong, auto)
  also have "\<dots> = sum_list (map (\<lambda>c. if f d = c then 1 else 0) cs)
                  + sum_list (map (\<lambda>c. length (filter (\<lambda>e. f e = c) ds)) cs)"
    by (simp add: sum_list_addf)
  also have "sum_list (map (\<lambda>c. if f d = c then 1 else (0::nat)) cs) = 1"
    using Cons.prems by (simp add: sum_list_indicator)
  finally show ?case using Cons by simp
qed


lemma getCategoryPartition_closed_form:
  assumes "\<forall>d \<in> set (dataset L). s_output d \<in> set (categories ext)"
  shows "getCategoryPartition ext L =
           (Inr (\<lambda>c. if c \<in> set (categories ext)
                      then Some (tally L (dataset L) c \<lparr>overall = 0, test = 0, train = 0\<rparr>)
                      else None), L)"
proof -
  have "\<forall>d \<in> set (dataset L). s_output d \<in> dom (init_partition (categories ext))"
    using assms by (simp add: dom_def init_partition_apply)
  then have "forEach_sample L (dataset L) (init_partition (categories ext))
             = Inr (\<lambda>c. map_option (tally L (dataset L) c) (init_partition (categories ext) c))"
    by (rule forEach_sample_tally)
  also have "(\<lambda>c. map_option (tally L (dataset L) c) (init_partition (categories ext) c))
             = (\<lambda>c. if c \<in> set (categories ext)
                      then Some (tally L (dataset L) c \<lparr>overall = 0, test = 0, train = 0\<rparr>)
                      else None)"
    by (rule ext) (simp add: init_partition_apply)
  finally show ?thesis by (simp add: getCategoryPartition_def)
qed

lemma length_filter_either:
  "\<forall>d \<in> set ds. P d \<longrightarrow> (Q d \<noteq> R d) \<Longrightarrow>
   length (filter P ds) = length (filter (\<lambda>d. P d \<and> Q d) ds) + length (filter (\<lambda>d. P d \<and> R d) ds)"
  by (induction ds) auto

text \<open>
  C10: when the training and the test set are disjoint by identity and together contain
  every sample of the dataset, and every output is one of the categories,
  \<open>getCategoryPartition\<close> returns, for each category, counts with
  \<open>overall = train + test\<close>; the overall counts of the categories add up to the size of
  the dataset; the learner is the same after the call.
\<close>

theorem getCategoryPartition_counts:
  assumes disjoint: "set (trainSet L) \<inter> set (testSet L) = {}"
    and cover: "set (dataset L) \<subseteq> set (trainSet L) \<union> set (testSet L)"
    and outputs: "\<forall>d \<in> set (dataset L). s_output d \<in> set (categories ext)"
  shows "\<exists>res. getCategoryPartition ext L = (Inr res, L)
           \<and> dom res = set (categories ext)
           \<and> (\<forall>c \<in> set (categories ext). \<exists>x. res c = Some x
                  \<and> overall x = partition_counts.train x + partition_counts.test x)
           \<and> (\<Sum>c\<leftarrow>remdups (categories ext). case res c of None \<Rightarrow> 0 | Some x \<Rightarrow> overall x)
               = length (dataset L)"
proof -
  define res where "res = (\<lambda>c. if c \<in> set (categories ext)
                      then Some (tally L (dataset L) c \<lparr>overall = 0, test = 0, train = 0\<rparr>)
                      else None)"
  have run: "getCategoryPartition ext L = (Inr res, L)"
    unfolding res_def by (rule getCategoryPartition_closed_form [OF outputs])
  have dom: "dom res = set (categories ext)"
    by (auto simp: res_def dom_def)
  have either: "\<forall>d \<in> set (dataset L). s_output d = c \<longrightarrow>
                  ((d \<in> set (trainSet L)) \<noteq> (d \<in> set (testSet L)))" for c
    using disjoint cover by auto
  have parts: "\<forall>c \<in> set (categories ext). \<exists>x. res c = Some x
                  \<and> overall x = partition_counts.train x + partition_counts.test x"
    using length_filter_either [OF either] by (simp add: res_def tally_def)
  have "(\<Sum>c\<leftarrow>remdups (categories ext). case res c of None \<Rightarrow> 0 | Some x \<Rightarrow> overall x)
        = (\<Sum>c\<leftarrow>remdups (categories ext). length (filter (\<lambda>d. s_output d = c) (dataset L)))"
    by (rule arg_cong [where f = sum_list], rule map_cong) (simp_all add: res_def tally_def)
  also have "\<dots> = length (dataset L)"
    using outputs by (intro sum_list_count_outputs) simp_all
  finally show ?thesis using run dom parts by blast
qed

theorem getCategoryPartition_counts_witness:
  "set (trainSet toy_learner) \<inter> set (testSet toy_learner) = {}
   \<and> set (dataset toy_learner) \<subseteq> set (trainSet toy_learner) \<union> set (testSet toy_learner)
   \<and> s_output ` set (dataset toy_learner) \<subseteq> set (categories toy)
   \<and> fst (getCategoryPartition toy toy_learner) \<noteq> Inl TypeError
   \<and> snd (getCategoryPartition toy toy_learner) = toy_learner"
proof -
  have h1: "set (trainSet toy_learner) \<inter> set (testSet toy_learner) = {}"
    by (simp add: toy_learner_def four_samples_def sample_of_def)
  have h2: "set (dataset toy_learner) \<subseteq> set (trainSet toy_learner) \<union> set (testSet toy_learner)"
    by (simp add: toy_learner_def four_samples_def sample_of_def)
  have h3: "\<forall>d \<in> set (dataset toy_learner). s_output d \<in> set (categories toy)"
    by (simp add: toy_learner_def four_samples_def sample_of_def toy_def)
  from getCategoryPartition_counts [OF h1 h2 h3]
  obtain res where "getCategoryPartition toy toy_learner = (Inr res, toy_learner)"
    by blast
  with h1 h2 h3 show ?thesis by auto
qed

section \<open>getStats\<close>

lemma getStats_set:
  assumes m: "microAvg L = Some m"
    and cp: "getCategoryPartition ext L = (Inr cp, L)"
  shows "getStats ext L =
           (Inr \<lparr>Stats.TP = PrecisionRecall.TP m,
                 TN = PrecisionRecall.TN m,
                 FP = PrecisionRecall.FP m,
                 FN = PrecisionRecall.FN m,
                 confusion = PrecisionRecall.confusion m,
                 Precision = PrecisionRecall.Precision m,
                 Accuracy = PrecisionRecall.Accuracy m,
                 Recall = PrecisionRecall.Recall m,
                 F1 = PrecisionRecall.F1 m,
                 Specificity = js_div (PrecisionRecall.TN m)
                                 (PrecisionRecall.FP m + PrecisionRecall.TN m),
                 totalCount = count m,
                 trainCount = length (trainSet L),
                 testCount = length (testSet L),
                 categoryPartition = cp\<rparr>, L)"
  by (simp add: getStats_def m cp)

text \<open>
  C3: while \<open>microAvg\<close> is unset, \<open>getStats\<close> fails: destructuring the unset field raises
  the \<open>TypeError\<close> that stands for the specification's \<open>NoStatsAvailable\<close>. Once it is
  set, and the outputs of the dataset are among the categories as the dataset contract
  says, \<open>getStats\<close> returns the report made of the counts, the ratios and the confusion
  matrix of \<open>microAvg\<close>, the total, training and test counts and the category partition.
\<close>

theorem getStats_unset_or_report:
  "(microAvg L = None \<longrightarrow> getStats ext L = (Inl TypeError, L)) \<and>
   (\<forall>m. microAvg L = Some m
          \<and> (\<forall>d \<in> set (dataset L). s_output d \<in> set (categories ext)) \<longrightarrow>
      (\<exists>cp. getCategoryPartition ext L = (Inr cp, L) \<and>
         getStats ext L =
           (Inr \<lparr>Stats.TP = PrecisionRecall.TP m,
                 TN = PrecisionRecall.TN m,
                 FP = PrecisionRecall.FP m,
                 FN = PrecisionRecall.FN m,
                 confusion = PrecisionRecall.confusion m,
                 Precision = PrecisionRecall.Precision m,
                 Accuracy = PrecisionRecall.Accuracy m,
                 Recall = PrecisionRecall.Recall m,
                 F1 = PrecisionRecall.F1 m,
                 Specificity = js_div (PrecisionRecall.TN m)
                                 (PrecisionRecall.FP m + PrecisionRecall.TN m),
                 totalCount = count m,
                 trainCount = length (trainSet L),
                 testCount = length (testSet L),
                 categoryPartition = cp\<rparr>, L)))"
proof (intro conjI impI allI)
  assume "microAvg L = None"
  then show "getStats ext L = (Inl TypeError, L)"
    by (simp add: getStats_def)
next
  fix m
  assume a: "microAvg L = Some m
          \<and> (\<forall>d \<in> set (dataset L). s_output d \<in> set (categories ext))"
  then obtain cp where cp: "getCategoryPartition ext L = (Inr cp, L)"
    using getCategoryPartition_closed_form by blast
  with a getStats_set show "\<exists>cp. getCategoryPartition ext L = (Inr cp, L) \<and>
         getStats ext L =
           (Inr \<lparr>Stats.TP = PrecisionRecall.TP m,
                 TN = PrecisionRecall.TN m,
                 FP = PrecisionRecall.FP m,
                 FN = PrecisionRecall.FN m,
                 confusion = PrecisionRecall.confusion m,
                 Precision = PrecisionRecall.Precision m,
                 Accuracy = PrecisionRecall.Accuracy m,
                 Recall = PrecisionRecall.Recall m,
                 F1 = PrecisionRecall.F1 m,
                 Specificity = js_div (PrecisionRecall.TN m)
                                 (PrecisionRecall.FP m + PrecisionRecall.TN m),
                 totalCount = count m,
                 trainCount = length (trainSet L),
                 testCount = length (testSet L),
                 categoryPartition = cp\<rparr>, L)"
    by blast
qed

theorem getStats_unset_or_report_witness:
  "microAvg toy_learner = None
   \<and> getStats toy toy_learner = (Inl TypeError, toy_learner)
   \<and> microAvg (toy_learner\<lparr>microAvg := Some zero_PrecisionRecall\<rparr>) = Some zero_PrecisionRecall
   \<and> s_output ` set (dataset (toy_learner\<lparr>microAvg := Some zero_PrecisionRecall\<rparr>))
         \<subseteq> set (categories toy)
   \<and> map_sum id totalCount
         (fst (getStats toy (toy_learner\<lparr>microAvg := Some zero_PrecisionRecall\<rparr>))) = Inr 0"
proof -
  let ?L = "toy_learner\<lparr>microAvg := Some zero_PrecisionRecall\<rparr>"
  have h0: "microAvg toy_learner = None"
    by (simp add: toy_learner_def)
  have h1: "microAvg ?L = Some zero_PrecisionRecall"
    by simp
  have h2: "\<forall>d \<in> set (dataset ?L). s_output d \<in> set (categories toy)"
    by (simp add: toy_learner_def four_samples_def sample_of_def toy_def)
  have unset: "getStats toy toy_learner = (Inl TypeError, toy_learner)"
    using getStats_unset_or_report [of toy_learner toy] h0 by blast
  have "\<exists>cp. getStats toy ?L =
           (Inr \<lparr>Stats.TP = PrecisionRecall.TP zero_PrecisionRecall,
                 TN = PrecisionRecall.TN zero_PrecisionRecall,
                 FP = PrecisionRecall.FP zero_PrecisionRecall,
                 FN = PrecisionRecall.FN zero_PrecisionRecall,
                 confusion = PrecisionRecall.confusion zero_PrecisionRecall,
                 Precision = PrecisionRecall.Precision zero_PrecisionRecall,
                 Accuracy = PrecisionRecall.Accuracy zero_PrecisionRecall,
                 Recall = PrecisionRecall.Recall zero_PrecisionRecall,
                 F1 = PrecisionRecall.F1 zero_PrecisionRecall,
                 Specificity = js_div (PrecisionRecall.TN zero_PrecisionRecall)
                                 (PrecisionRecall.FP zero_PrecisionRecall + PrecisionRecall.TN zero_PrecisionRecall),
                 totalCount = count zero_PrecisionRecall,
                 trainCount = length (trainSet ?L),
                 testCount = length (testSet ?L),
                 categoryPartition = cp\<rparr>, ?L)"
    using getStats_unset_or_report [of ?L toy] h1 h2 by blast
  then have "map_sum id totalCount (fst (getStats toy ?L)) = Inr 0"
    by (auto simp: zero_PrecisionRecall_def)
  with h0 h1 h2 unset show ?thesis by auto
qed

text \<open>
  C9: the report's \<open>Specificity\<close> is \<open>TN / (FP + TN)\<close> on the counts of \<open>microAvg\<close>,
  with no guard: when \<open>FP + TN = 0\<close> the call still returns a report, and its
  \<open>Specificity\<close> is \<open>NaN\<close>.
\<close>

theorem getStats_Specificity_unguarded:
  assumes m: "microAvg L = Some m"
    and outputs: "\<forall>d \<in> set (dataset L). s_output d \<in> set (categories ext)"
  shows "\<exists>report. fst (getStats ext L) = Inr report
           \<and> Specificity report
               = js_div (PrecisionRecall.TN m) (PrecisionRecall.FP m + PrecisionRecall.TN m)
           \<and> (PrecisionRecall.FP m + PrecisionRecall.TN m = 0 \<longrightarrow> Specificity report = NaN)"
proof -
  obtain cp where "getCategoryPartition ext L = (Inr cp, L)"
    using getCategoryPartition_closed_form [OF outputs] by blast
  from getStats_set [OF m this] show ?thesis
    by (simp add: js_div_def)
qed

theorem getStats_Specificity_unguarded_witness:
  "microAvg (toy_learner\<lparr>microAvg := Some zero_PrecisionRecall\<rparr>) = Some zero_PrecisionRecall
   \<and> s_output ` set (dataset (toy_learner\<lparr>microAvg := Some zero_PrecisionRecall\<rparr>))
         \<subseteq> set (categories toy)
   \<and> PrecisionRecall.FP zero_PrecisionRecall + PrecisionRecall.TN zero_PrecisionRecall = 0
   \<and> map_sum id Specificity
         (fst (getStats toy (toy_learner\<lparr>microAvg := Some zero_PrecisionRecall\<rparr>))) = Inr NaN"
proof -
  let ?L = "toy_learner\<lparr>microAvg := Some zero_PrecisionRecall\<rparr>"
  have h1: "microAvg ?L = Some zero_PrecisionRecall"
    by simp
  have h2: "\<forall>d \<in> set (dataset ?L). s_output d \<in> set (categories toy)"
    by (simp add: toy_learner_def four_samples_def sample_of_def toy_def)
  have h3: "PrecisionRecall.FP zero_PrecisionRecall + PrecisionRecall.TN zero_PrecisionRecall = 0"
    by (simp add: zero_PrecisionRecall_def)
  from getStats_Specificity_unguarded [OF h1 h2] h3
  have "map_sum id Specificity (fst (getStats toy ?L)) = Inr NaN"
    by auto
  with h1 h2 h3 show ?thesis by auto
qed

section \<open>Cross-validation\<close>

text \<open>
  The fold over the partitions keeps the learner in step with the state machine: the
  classifier and the two accumulators of the learner are those of the machine, and
  every other field stays as it was.
\<close>

lemma foldIndex_foldl:
  "foldIndex (foldl (cv_transition ext v) s ps) = foldIndex s + length ps"
  by (induction ps arbitrary: s) (auto simp: cv_transition_def Let_def split: prod.splits)

lemma cv_callback_step:
  assumes "Learner.microAvg L = Some (microAcc s)" "Learner.macroAvg L = Some (macroAcc s)"
    and "Learner.classifier L = clf s"
  shows "cv_callback ext v lg p (L, cs) =
     (L\<lparr>Learner.classifier := clf (cv_transition ext v s p),
        Learner.macroAvg := Some (macroAcc (cv_transition ext v s p)),
        Learner.microAvg := Some (microAcc (cv_transition ext v s p))\<rparr>,
      cs @ (if lg then [Call_stdout_write (length (fst p)) (length (snd p))] else [])
         @ [Call_trainBatch (clf s) (fst p),
            Call_test (clf (cv_transition ext v s p)) (snd p) v (microAcc s) (macroAcc s)])"
  using assms
  by (cases p) (simp add: cv_callback_def train_def cv_transition_def Let_def split: prod.splits)

lemma cv_fold:
  fixes L0 :: "('c, 'b, 'm) Learner" and ext :: "('c, 'b, 'm, 'r) collaborators"
  assumes mi: "Learner.microAvg L0 = Some mi0" and ma: "Learner.macroAvg L0 = Some ma0"
  defines "s0 \<equiv> \<lparr>foldIndex = 0, clf = Learner.classifier L0, microAcc = mi0, macroAcc = ma0\<rparr>"
  shows "\<exists>cs. foldl (\<lambda>s p. cv_callback ext v lg p s) (L0, []) ps
            = (L0\<lparr>Learner.classifier := clf (foldl (cv_transition ext v) s0 ps),
                  Learner.macroAvg := Some (macroAcc (foldl (cv_transition ext v) s0 ps)),
                  Learner.microAvg := Some (microAcc (foldl (cv_transition ext v) s0 ps))\<rparr>, cs)
          \<and> map kind cs
              = concat (map (\<lambda>p. (if lg then [Write] else []) @ [Train (fst p), Test (snd p)]) ps)
          \<and> filter is_trainBatch cs
              = map (\<lambda>i. Call_trainBatch (clf (foldl (cv_transition ext v) s0 (take i ps)))
                          (fst (ps ! i))) [0..<length ps]"
proof (induction ps rule: rev_induct)
  case Nil
  show ?case using mi ma by (simp add: s0_def)
next
  case (snoc p ps)
  let ?s = "foldl (cv_transition ext v) s0 ps"
  let ?L = "L0\<lparr>Learner.classifier := clf ?s, Learner.macroAvg := Some (macroAcc ?s),
                Learner.microAvg := Some (microAcc ?s)\<rparr>"
  from snoc obtain cs where
    run: "foldl (\<lambda>s p. cv_callback ext v lg p s) (L0, []) ps = (?L, cs)"
    and kinds: "map kind cs
              = concat (map (\<lambda>p. (if lg then [Write] else []) @ [Train (fst p), Test (snd p)]) ps)"
    and trains: "filter is_trainBatch cs
              = map (\<lambda>i. Call_trainBatch (clf (foldl (cv_transition ext v) s0 (take i ps)))
                          (fst (ps ! i))) [0..<length ps]"
    by blast
  let ?cs = "cs @ (if lg then [Call_stdout_write (length (fst p)) (length (snd p))] else [])
         @ [Call_trainBatch (clf ?s) (fst p),
            Call_test (clf (cv_transition ext v ?s p)) (snd p) v (microAcc ?s) (macroAcc ?s)]"
  have step: "cv_callback ext v lg p (?L, cs) =
     (?L\<lparr>Learner.classifier := clf (cv_transition ext v ?s p),
        Learner.macroAvg := Some (macroAcc (cv_transition ext v ?s p)),
        Learner.microAvg := Some (microAcc (cv_transition ext v ?s p))\<rparr>, ?cs)"
    by (rule cv_callback_step) simp_all
  have 1: "foldl (\<lambda>s p. cv_callback ext v lg p s) (L0, []) (ps @ [p])
        = (L0\<lparr>Learner.classifier := clf (foldl (cv_transition ext v) s0 (ps @ [p])),
              Learner.macroAvg := Some (macroAcc (foldl (cv_transition ext v) s0 (ps @ [p]))),
              Learner.microAvg := Some (microAcc (foldl (cv_transition ext v) s0 (ps @ [p])))\<rparr>, ?cs)"
    by (simp add: run step)
  have 2: "map kind ?cs
         = concat (map (\<lambda>p. (if lg then [Write] else []) @ [Train (fst p), Test (snd p)]) (ps @ [p]))"
    by (simp add: kinds)
  have "map (\<lambda>i. Call_trainBatch (clf (foldl (cv_transition ext v) s0 (take i (ps @ [p]))))
                          (fst ((ps @ [p]) ! i))) [0..<length ps]
        = map (\<lambda>i. Call_trainBatch (clf (foldl (cv_transition ext v) s0 (take i ps)))
                          (fst (ps ! i))) [0..<length ps]"
    by (rule map_cong) (simp_all add: nth_append)
  then have 3: "filter is_trainBatch ?cs
         = map (\<lambda>i. Call_trainBatch (clf (foldl (cv_transition ext v) s0 (take i (ps @ [p]))))
                          (fst ((ps @ [p]) ! i))) [0..<length (ps @ [p])]"
    by (simp add: trains)
  from 1 2 3 show ?case by blast
qed

lemma clf_foldl:
  "clf (foldl (cv_transition ext v) s ps) = foldl (trainBatch ext) (clf s) (map fst ps)"
  by (induction ps arbitrary: s) (auto simp: cv_transition_def Let_def split: prod.splits)

lemma crossValidate_run:
  fixes L :: "('c, 'b, 'm) Learner" and ext :: "('c, 'b, 'm, 'r) collaborators"
    and k v :: nat
  defines "ps \<equiv> limdu_partitions ext (Learner.dataset L) k"
  defines "s \<equiv> cv_run ext v (Learner.classifier L) ps"
  shows "\<exists>cs. crossValidate ext k v lg L
           = (Inr (cv_terminal ext k s),
              L\<lparr>Learner.classifier := clf s,
                Learner.macroAvg := Some (calculateMacroAverageStats ext (macroAcc s) k),
                Learner.microAvg := Some (calculateStats ext (microAcc s))\<rparr>,
              cs @ [Call_calculateMacroAverageStats (macroAcc s) k,
                    Call_calculateStats (microAcc s),
                    Call_fullStats (calculateMacroAverageStats ext (macroAcc s) k),
                    Call_fullStats (calculateStats ext (microAcc s))])
          \<and> map kind cs
              = concat (map (\<lambda>p. (if lg then [Write] else []) @ [Train (fst p), Test (snd p)]) ps)
          \<and> filter is_trainBatch cs
              = map (\<lambda>i. Call_trainBatch (clf (cv_run ext v (Learner.classifier L) (take i ps)))
                          (fst (ps ! i))) [0..<length ps]"
proof -
  let ?L0 = "L\<lparr>Learner.macroAvg := Some (new_PrecisionRecall ext)\<rparr>
              \<lparr>Learner.microAvg := Some (new_PrecisionRecall ext)\<rparr>"
  have mi: "Learner.microAvg ?L0 = Some (new_PrecisionRecall ext)"
    and ma: "Learner.macroAvg ?L0 = Some (new_PrecisionRecall ext)"
    by simp_all
  from cv_fold [OF mi ma, of ext v lg ps]
  obtain cs where
    run: "foldl (\<lambda>s p. cv_callback ext v lg p s) (?L0, []) ps
            = (?L0\<lparr>Learner.classifier := clf s,
                  Learner.macroAvg := Some (macroAcc s),
                  Learner.microAvg := Some (microAcc s)\<rparr>, cs)"
    and kinds: "map kind cs
              = concat (map (\<lambda>p. (if lg then [Write] else []) @ [Train (fst p), Test (snd p)]) ps)"
    and trains: "filter is_trainBatch cs
              = map (\<lambda>i. Call_trainBatch (clf (cv_run ext v (Learner.classifier L) (take i ps)))
                          (fst (ps ! i))) [0..<length ps]"
    unfolding s_def cv_run_def cv_initial_def by auto
  have "crossValidate ext k v lg L
           = (Inr (cv_terminal ext k s),
              L\<lparr>Learner.classifier := clf s,
                Learner.macroAvg := Some (calculateMacroAverageStats ext (macroAcc s) k),
                Learner.microAvg := Some (calculateStats ext (microAcc s))\<rparr>,
              cs @ [Call_calculateMacroAverageStats (macroAcc s) k,
                    Call_calculateStats (microAcc s),
                    Call_fullStats (calculateMacroAverageStats ext (macroAcc s) k),
                    Call_fullStats (calculateStats ext (microAcc s))])"
    using run unfolding crossValidate_def ps_def [symmetric]
    by (simp add: ps_def cv_terminal_def Let_def)
  with kinds trains show ?thesis by blast
qed
lemma toy_partitions:
  "limdu_partitions toy (Learner.dataset toy_learner) 2
     = [(drop 2 four_samples, take 2 four_samples), (take 2 four_samples, drop 2 four_samples)]"
  by (simp add: toy_def contiguous_folds_def toy_learner_def four_samples_def
      upt_conv_Cons Let_def)

text \<open>
  C1: \<open>crossValidate(k)\<close> never fails; it makes one training call and one test call per
  partition that the partitioner delivers for the dataset and \<open>k\<close>, in order, each test
  call receiving both accumulators (the state machine's transition), then
  \<open>calculateMacroAverageStats(k)\<close> on the macro accumulator and \<open>calculateStats()\<close> on the
  micro accumulator, and returns \<open>fullStats()\<close> of both. When the partitioner delivers
  \<open>k\<close> partitions, these are \<open>k\<close> passes.
\<close>

theorem crossValidate_runs_folds:
  fixes L :: "('c, 'b, 'm) Learner" and ext :: "('c, 'b, 'm, 'r) collaborators"
    and k v :: nat
  defines "ps \<equiv> limdu_partitions ext (Learner.dataset L) k"
  defines "s \<equiv> cv_run ext v (Learner.classifier L) ps"
  shows "\<exists>L' cs ma mi.
           crossValidate ext k v lg L
             = (Inr \<lparr>CrossValidation.macroAvg = fullStats ext ma,
                      CrossValidation.microAvg = fullStats ext mi\<rparr>, L', cs)
         \<and> Learner.macroAvg L' = Some ma \<and> Learner.microAvg L' = Some mi
         \<and> ma = calculateMacroAverageStats ext (macroAcc s) k
         \<and> mi = calculateStats ext (microAcc s)
         \<and> foldIndex s = length ps
         \<and> map kind cs
             = concat (map (\<lambda>p. (if lg then [Write] else []) @ [Train (fst p), Test (snd p)]) ps)
               @ [CalculateMacroAverageStats k, CalculateStats, FullStats, FullStats]
         \<and> length (filter is_Train (map kind cs)) = length ps
         \<and> length (filter is_Test (map kind cs)) = length ps
         \<and> (length ps = k \<longrightarrow>
               length (filter is_Train (map kind cs)) = k
             \<and> length (filter is_Test (map kind cs)) = k)"
proof -
  from crossValidate_run [of ext k v lg L]
  obtain cs where
    run: "crossValidate ext k v lg L
           = (Inr (cv_terminal ext k s),
              L\<lparr>Learner.classifier := clf s,
                Learner.macroAvg := Some (calculateMacroAverageStats ext (macroAcc s) k),
                Learner.microAvg := Some (calculateStats ext (microAcc s))\<rparr>,
              cs @ [Call_calculateMacroAverageStats (macroAcc s) k,
                    Call_calculateStats (microAcc s),
                    Call_fullStats (calculateMacroAverageStats ext (macroAcc s) k),
                    Call_fullStats (calculateStats ext (microAcc s))])"
    and kinds: "map kind cs
              = concat (map (\<lambda>p. (if lg then [Write] else []) @ [Train (fst p), Test (snd p)]) ps)"
    unfolding s_def ps_def by blast
  have idx: "foldIndex s = length ps"
    by (simp add: s_def cv_run_def foldIndex_foldl cv_initial_def)
  have nT: "length (filter is_Train (concat (map (\<lambda>p. (if lg then [Write] else [])
              @ [Train (fst p), Test (snd p)]) qs))) = length qs" for qs :: "(sample list \<times> sample list) list"
    by (induction qs) auto
  have nE: "length (filter is_Test (concat (map (\<lambda>p. (if lg then [Write] else [])
              @ [Train (fst p), Test (snd p)]) qs))) = length qs" for qs :: "(sample list \<times> sample list) list"
    by (induction qs) auto
  define ma where "ma = calculateMacroAverageStats ext (macroAcc s) k"
  define mi where "mi = calculateStats ext (microAcc s)"
  define L' where "L' = L\<lparr>Learner.classifier := clf s, Learner.macroAvg := Some ma,
                          Learner.microAvg := Some mi\<rparr>"
  define cs' where "cs' = cs @ [Call_calculateMacroAverageStats (macroAcc s) k,
                    Call_calculateStats (microAcc s), Call_fullStats ma, Call_fullStats mi]"
  have result: "crossValidate ext k v lg L
             = (Inr \<lparr>CrossValidation.macroAvg = fullStats ext ma,
                      CrossValidation.microAvg = fullStats ext mi\<rparr>, L', cs')"
    by (simp add: run cv_terminal_def ma_def mi_def L'_def cs'_def)
  have fields: "Learner.macroAvg L' = Some ma" "Learner.microAvg L' = Some mi"
    by (simp_all add: L'_def)
  have shape: "map kind cs'
             = concat (map (\<lambda>p. (if lg then [Write] else []) @ [Train (fst p), Test (snd p)]) ps)
               @ [CalculateMacroAverageStats k, CalculateStats, FullStats, FullStats]"
    by (simp add: kinds cs'_def)
  have cT: "length (filter is_Train (map kind cs')) = length ps"
    unfolding shape by (simp add: nT)
  have cE: "length (filter is_Test (map kind cs')) = length ps"
    unfolding shape by (simp add: nE)
  from result fields ma_def mi_def idx shape cT cE show ?thesis
    by blast
qed

theorem crossValidate_runs_folds_witness:
  "length (limdu_partitions toy (Learner.dataset toy_learner) 2) = 2
   \<and> fst (crossValidate toy 2 0 False toy_learner) \<noteq> Inl TypeError
   \<and> length (filter is_Train (map kind (snd (snd (crossValidate toy 2 0 False toy_learner))))) = 2
   \<and> length (filter is_Test (map kind (snd (snd (crossValidate toy 2 0 False toy_learner))))) = 2"
proof -
  have h: "length (limdu_partitions toy (Learner.dataset toy_learner) 2) = 2"
    by (simp add: toy_partitions)
  from crossValidate_runs_folds [of toy 2 0 False toy_learner] h
  show ?thesis by auto
qed

text \<open>
  C2, as the code has it: \<open>crossValidate\<close> sets \<open>macroAvg\<close> and \<open>microAvg\<close> to the newly
  computed accumulators and leaves \<open>dataset\<close>, \<open>trainSplit\<close>, \<open>trainSet\<close>, \<open>testSet\<close>
  and \<open>classifierBuilder\<close> as they were: the sets of a fold are arguments of \<open>train\<close>
  and \<open>test\<close>, never assigned to the learner.
\<close>

theorem crossValidate_frame:
  fixes L :: "('c, 'b, 'm) Learner" and ext :: "('c, 'b, 'm, 'r) collaborators"
    and k v :: nat
  shows "Learner.dataset (fst (snd (crossValidate ext k v lg L))) = Learner.dataset L
       \<and> Learner.trainSplit (fst (snd (crossValidate ext k v lg L))) = Learner.trainSplit L
       \<and> Learner.trainSet (fst (snd (crossValidate ext k v lg L))) = Learner.trainSet L
       \<and> Learner.testSet (fst (snd (crossValidate ext k v lg L))) = Learner.testSet L
       \<and> Learner.classifierBuilder (fst (snd (crossValidate ext k v lg L)))
           = Learner.classifierBuilder L
       \<and> Learner.macroAvg (fst (snd (crossValidate ext k v lg L)))
           = Some (calculateMacroAverageStats ext
               (macroAcc (cv_run ext v (Learner.classifier L)
                  (limdu_partitions ext (Learner.dataset L) k))) k)
       \<and> Learner.microAvg (fst (snd (crossValidate ext k v lg L)))
           = Some (calculateStats ext
               (microAcc (cv_run ext v (Learner.classifier L)
                  (limdu_partitions ext (Learner.dataset L) k))))"
  using crossValidate_run [of ext k v lg L] by auto

text \<open>
  C2 as stated fails: after two folds over four samples the learner still holds the
  three-to-one split it had before, which is none of the fold partitions.
\<close>

theorem crossValidate_keeps_constructor_split:
  "Learner.trainSet (fst (snd (crossValidate toy 2 0 False toy_learner)))
     = Learner.trainSet toy_learner
   \<and> Learner.testSet (fst (snd (crossValidate toy 2 0 False toy_learner)))
     = Learner.testSet toy_learner
   \<and> (Learner.trainSet toy_learner, Learner.testSet toy_learner)
       \<notin> set (limdu_partitions toy (Learner.dataset toy_learner) 2)"
proof -
  note toy_partitions
  moreover have "(Learner.trainSet toy_learner, Learner.testSet toy_learner)
       \<notin> set [(drop 2 four_samples, take 2 four_samples), (take 2 four_samples, drop 2 four_samples)]"
    by (simp add: toy_learner_def four_samples_def)
  ultimately show ?thesis
    using crossValidate_run [of toy 2 0 False toy_learner] by auto
qed

lemma crossValidate_trainBatch_calls:
  fixes L :: "('c, 'b, 'm) Learner" and ext :: "('c, 'b, 'm, 'r) collaborators"
    and k v :: nat
  defines "ps \<equiv> limdu_partitions ext (Learner.dataset L) k"
  shows "filter is_trainBatch (snd (snd (crossValidate ext k v lg L)))
           = map (\<lambda>i. Call_trainBatch
                         (foldl (trainBatch ext) (Learner.classifier L) (map fst (take i ps)))
                         (fst (ps ! i))) [0..<length ps]"
  using crossValidate_run [of ext k v lg L]
  by (auto simp: ps_def cv_run_def clf_foldl cv_initial_def)

text \<open>
  C5, as the code has it: every fold calls \<open>trainBatch\<close> on the learner's one
  classifier, which \<open>crossValidate\<close> never rebuilds. The classifier that enters the
  training call of fold \<open>i\<close> is the classifier the learner had at the call, trained on
  the training sets of the folds \<open>0..i-1\<close> in order; the learner keeps the classifier
  trained on all of them.
\<close>

theorem crossValidate_trains_one_classifier:
  fixes L :: "('c, 'b, 'm) Learner" and ext :: "('c, 'b, 'm, 'r) collaborators"
    and k v :: nat
  defines "ps \<equiv> limdu_partitions ext (Learner.dataset L) k"
  shows "filter is_trainBatch (snd (snd (crossValidate ext k v lg L)))
           = map (\<lambda>i. Call_trainBatch
                         (foldl (trainBatch ext) (Learner.classifier L) (map fst (take i ps)))
                         (fst (ps ! i))) [0..<length ps]
       \<and> Learner.classifier (fst (snd (crossValidate ext k v lg L)))
           = foldl (trainBatch ext) (Learner.classifier L) (map fst ps)"
proof -
  have "Learner.classifier (fst (snd (crossValidate ext k v lg L)))
           = foldl (trainBatch ext) (Learner.classifier L) (map fst ps)"
    using crossValidate_run [of ext k v lg L]
    by (auto simp: ps_def cv_run_def clf_foldl cv_initial_def)
  then show ?thesis
    unfolding ps_def using crossValidate_trainBatch_calls [of ext k v lg L] by simp
qed

text \<open>
  C5 as stated fails: with a classifier that counts the samples it was trained on,
  the classifier entering the training call of fold 1 has already seen the two samples of
  fold 0, and is neither the learner's classifier before the call nor a freshly built one.
\<close>

theorem crossValidate_fold_1_not_fresh:
  "filter is_trainBatch (snd (snd (crossValidate toy 2 0 False toy_learner))) ! 1
     = Call_trainBatch (trainBatch toy (Learner.classifier toy_learner) (drop 2 four_samples))
         (take 2 four_samples)
   \<and> trainBatch toy (Learner.classifier toy_learner) (drop 2 four_samples) = 2
   \<and> Learner.classifier toy_learner = 0
   \<and> build toy (Learner.classifierBuilder toy_learner) = 0"
proof -
  let ?ps = "[(drop 2 four_samples, take 2 four_samples), (take 2 four_samples, drop 2 four_samples)]"
  let ?f = "\<lambda>i. Call_trainBatch
               (foldl (trainBatch toy) (Learner.classifier toy_learner) (map fst (take i ?ps)))
               (fst (?ps ! i)) :: (nat, unit) call"
  have "filter is_trainBatch (snd (snd (crossValidate toy 2 0 False toy_learner)))
        = map ?f [0..<length ?ps]"
    using crossValidate_trainBatch_calls [of toy 2 0 False toy_learner]
    unfolding toy_partitions .
  also have "[0..<length ?ps] = [0, 1]"
    by (simp add: upt_conv_Cons)
  finally have "filter is_trainBatch (snd (snd (crossValidate toy 2 0 False toy_learner))) ! 1
        = ?f 1"
    by simp
  also have "?f 1 = Call_trainBatch
         (trainBatch toy (Learner.classifier toy_learner) (drop 2 four_samples))
         (take 2 four_samples)"
    by simp
  finally show ?thesis
    by (simp add: toy_def toy_learner_def four_samples_def)
qed

section \<open>Reconstruction from JSON\<close>

lemma split_three_quarters:
  "split four_samples (3 / 4) = Inr (take 3 four_samples, drop 3 four_samples)"
  by (simp add: split_def four_samples_def Let_def)




lemma copy_allowed_props_toJSON:
  "copy_allowed_props (toJSON ext L) N
     = N\<lparr>Learner.classifierBuilder := Learner.classifierBuilder L,
         Learner.trainSet := Learner.trainSet L,
         Learner.testSet := Learner.testSet L,
         Learner.macroAvg := (case Learner.macroAvg L of None \<Rightarrow> Learner.macroAvg N | Some v \<Rightarrow> Some v),
         Learner.microAvg := (case Learner.microAvg L of None \<Rightarrow> Learner.microAvg N | Some v \<Rightarrow> Some v)\<rparr>"
  by (simp add: copy_allowed_props_def toJSON_def Let_def split: option.splits)

text \<open>
  C6: \<open>fromJSON(l.toJSON())\<close> is \<open>l\<close> with the deserialized classifier: the same
  dataset, split ratio, training and test set, builder and accumulators (unset ones stay
  unset), and a classifier that classifies every input as the classifier of \<open>l\<close> does.
  The hypotheses are the contracts of the collaborators: the split of the dataset of
  \<open>l\<close> succeeds, as it did when \<open>l\<close> was constructed, and deserializing the serialized
  classifier gives a classifier that behaves the same.
\<close>

theorem fromJSON_toJSON_roundtrip:
  assumes split_ok: "trainTestSplit ext (Learner.dataset L) (Learner.trainSplit L) = Inr (tr, te)"
    and deserialized: "serialize_fromString ext
           (Some (serialize_toString ext (Learner.classifier L) (Learner.classifierBuilder L)))
         = Inr c'"
    and equivalent: "\<forall>x. classify ext c' x = classify ext (Learner.classifier L) x"
  shows "\<exists>L'. fromJSON ext (toJSON ext L) = Inr L'
          \<and> L' = L\<lparr>Learner.classifier := c'\<rparr>
          \<and> Learner.dataset L' = Learner.dataset L
          \<and> Learner.trainSplit L' = Learner.trainSplit L
          \<and> Learner.trainSet L' = Learner.trainSet L
          \<and> Learner.testSet L' = Learner.testSet L
          \<and> Learner.classifierBuilder L' = Learner.classifierBuilder L
          \<and> Learner.macroAvg L' = Learner.macroAvg L
          \<and> Learner.microAvg L' = Learner.microAvg L
          \<and> (\<forall>x. classify ext (Learner.classifier L') x = classify ext (Learner.classifier L) x)"
proof -
  have new: "Learner_new ext \<lparr>Options.dataset = JSON.dataset (toJSON ext L),
                               Options.trainSplit = JSON.trainSplit (toJSON ext L),
                               Options.classifier = None\<rparr>
        = Inr \<lparr>Learner.dataset = Learner.dataset L, Learner.trainSplit = Learner.trainSplit L,
               Learner.trainSet = tr, Learner.testSet = te,
               Learner.classifier = build ext (classifierBuilder_default ext),
               Learner.classifierBuilder = classifierBuilder_default ext,
               Learner.macroAvg = None, Learner.microAvg = None\<rparr>"
    by (simp add: Learner_new_def toJSON_def split_ok Let_def)
  have des: "deserializeClassifier ext (JSON.classifier (toJSON ext L)) = Inr c'"
    by (simp add: deserializeClassifier_def toJSON_def serializeClassifier_def deserialized)
  have "fromJSON ext (toJSON ext L) = Inr (L\<lparr>Learner.classifier := c'\<rparr>)"
    unfolding fromJSON_def new
    by (simp add: des copy_allowed_props_toJSON split: option.splits)
  with equivalent show ?thesis by simp
qed

theorem fromJSON_toJSON_roundtrip_witness:
  "trainTestSplit toy (Learner.dataset toy_learner) (Learner.trainSplit toy_learner)
     = Inr (take 3 four_samples, drop 3 four_samples)
   \<and> serialize_fromString toy
        (Some (serialize_toString toy (Learner.classifier toy_learner)
                 (Learner.classifierBuilder toy_learner))) = Inr 0
   \<and> fromJSON toy (toJSON toy toy_learner) = Inr toy_learner"
proof -
  have h1: "trainTestSplit toy (Learner.dataset toy_learner) (Learner.trainSplit toy_learner)
     = Inr (take 3 four_samples, drop 3 four_samples)"
    using split_three_quarters by (simp add: toy_def toy_learner_def)
  have h2: "serialize_fromString toy
        (Some (serialize_toString toy (Learner.classifier toy_learner)
                 (Learner.classifierBuilder toy_learner))) = Inr 0"
    by (simp add: toy_def toy_learner_def)
  have h3: "\<forall>x. classify toy 0 x = classify toy (Learner.classifier toy_learner) x"
    by (simp add: toy_learner_def)
  from fromJSON_toJSON_roundtrip [OF h1 h2 h3]
  have "fromJSON toy (toJSON toy toy_learner) = Inr (toy_learner\<lparr>Learner.classifier := 0\<rparr>)"
    by blast
  then have "fromJSON toy (toJSON toy toy_learner) = Inr toy_learner"
    by (simp add: toy_learner_def)
  with h1 h2 show ?thesis by simp
qed

section \<open>The split at construction\<close>

lemma round_ratio_bounds:
  fixes r :: rat
  assumes "0 < r" "r < 1"
  shows "0 \<le> round (r * rat_of_nat n)" "round (r * rat_of_nat n) \<le> int n"
proof -
  have "0 \<le> r * rat_of_nat n" using assms by simp
  then show "0 \<le> round (r * rat_of_nat n)" by (simp add: round_def)
  have "r * rat_of_nat n \<le> rat_of_nat n"
    using assms by (simp add: mult_left_le_one_le)
  then have "r * rat_of_nat n + 1 / 2 < rat_of_nat n + 1" by simp
  then show "round (r * rat_of_nat n) \<le> int n"
    by (simp add: round_def floor_le_iff)
qed

lemma same_object_twice_overlaps:
  fixes s :: sample
  assumes "set tr \<subseteq> set [s, s]" "set te \<subseteq> set [s, s]" "tr \<noteq> []" "te \<noteq> []"
  shows "set tr \<inter> set te \<noteq> {}"
proof -
  have "s \<in> set tr" using assms(1,3) by (cases tr) auto
  moreover have "s \<in> set te" using assms(2,4) by (cases te) auto
  ultimately show ?thesis by auto
qed

text \<open>
  C7, amended: for every dataset and every ratio in \<open>(0, 1)\<close>, the constructor with the
  specification's \<open>split\<close> succeeds at once, and its training and test set have
  \<open>|trainSet| + |testSet| = |D|\<close> and \<open>|trainSet| = round(r * |D|)\<close>; they have no
  sample in common when the sample objects of the dataset are pairwise distinct.
\<close>

theorem constructor_split:
  assumes ratio: "0 < r" "r < 1"
  shows "\<exists>L. Learner_new (ext\<lparr>trainTestSplit := split\<rparr>)
                \<lparr>Options.dataset = Some D, Options.trainSplit = Some r,
                 Options.classifier = b\<rparr> = Inr L
          \<and> Learner.dataset L = D \<and> Learner.trainSplit L = r
          \<and> length (Learner.trainSet L) + length (Learner.testSet L) = length D
          \<and> int (length (Learner.trainSet L)) = round (r * rat_of_nat (length D))
          \<and> (distinct D \<longrightarrow> set (Learner.trainSet L) \<inter> set (Learner.testSet L) = {})"
proof -
  define n where "n = nat (round (r * rat_of_nat (length D)))"
  have n: "int n = round (r * rat_of_nat (length D))" "n \<le> length D"
    using round_ratio_bounds [OF ratio, of "length D"] by (simp_all add: n_def)
  have "split D r = Inr (take n D, drop n D)"
    using ratio by (simp add: split_def n_def Let_def)
  then have "Learner_new (ext\<lparr>trainTestSplit := split\<rparr>)
                \<lparr>Options.dataset = Some D, Options.trainSplit = Some r,
                 Options.classifier = b\<rparr>
       = Inr \<lparr>Learner.dataset = D, Learner.trainSplit = r, Learner.trainSet = take n D,
              Learner.testSet = drop n D,
              Learner.classifier = build ext (case b of None \<Rightarrow> classifierBuilder_default ext | Some f \<Rightarrow> f),
              Learner.classifierBuilder = (case b of None \<Rightarrow> classifierBuilder_default ext | Some f \<Rightarrow> f),
              Learner.macroAvg = None, Learner.microAvg = None\<rparr>"
    by (simp add: Learner_new_def Let_def split: option.splits)
  moreover have "distinct D \<longrightarrow> set (take n D) \<inter> set (drop n D) = {}"
    by (simp add: set_take_disj_set_drop_if_distinct)
  ultimately show ?thesis using n by simp
qed

theorem constructor_split_witness:
  "(0::rat) < 3 / 4 \<and> (3 / 4 :: rat) < 1 \<and> distinct four_samples
   \<and> map_sum id Learner.trainSet
        (Learner_new (toy\<lparr>trainTestSplit := split\<rparr>)
           \<lparr>Options.dataset = Some four_samples, Options.trainSplit = Some (3 / 4),
            Options.classifier = None\<rparr>) = Inr (take 3 four_samples)
   \<and> map_sum id Learner.testSet
        (Learner_new (toy\<lparr>trainTestSplit := split\<rparr>)
           \<lparr>Options.dataset = Some four_samples, Options.trainSplit = Some (3 / 4),
            Options.classifier = None\<rparr>) = Inr (drop 3 four_samples)
   \<and> set (take 3 four_samples) \<inter> set (drop 3 four_samples) = {}"
proof -
  have h1: "(0::rat) < 3 / 4" and h2: "(3 / 4 :: rat) < 1"
    by simp_all
  have h3: "distinct four_samples"
    by (simp add: four_samples_def sample_of_def)
  from constructor_split [OF h1 h2, of toy four_samples None] h3
  obtain L where L: "Learner_new (toy\<lparr>trainTestSplit := split\<rparr>)
           \<lparr>Options.dataset = Some four_samples, Options.trainSplit = Some (3 / 4),
            Options.classifier = None\<rparr> = Inr L"
    and disjoint: "set (Learner.trainSet L) \<inter> set (Learner.testSet L) = {}"
    by blast
  from L have sets: "Learner.trainSet L = take 3 four_samples"
      "Learner.testSet L = drop 3 four_samples"
    using split_three_quarters by (auto simp: Learner_new_def Let_def)
  from disjoint have "set (take 3 four_samples) \<inter> set (drop 3 four_samples) = {}"
    by (simp only: sets)
  with L sets h1 h2 h3 show ?thesis by simp
qed

text \<open>
  C7 as stated fails for a dataset that holds the same sample object twice: with ratio
  \<open>1/2\<close> that object is the training set and the test set. No split of such a dataset
  into two non-empty sets of its samples is disjoint.
\<close>

theorem constructor_split_same_object_twice:
  "map_sum id Learner.trainSet
     (Learner_new toy \<lparr>Options.dataset = Some [sample_of 0 ''yes'', sample_of 0 ''yes''],
                       Options.trainSplit = Some (1 / 2), Options.classifier = None\<rparr>)
     = Inr [sample_of 0 ''yes'']
   \<and> map_sum id Learner.testSet
     (Learner_new toy \<lparr>Options.dataset = Some [sample_of 0 ''yes'', sample_of 0 ''yes''],
                       Options.trainSplit = Some (1 / 2), Options.classifier = None\<rparr>)
     = Inr [sample_of 0 ''yes'']
   \<and> set [sample_of 0 ''yes''] \<inter> set [sample_of 0 ''yes''] \<noteq> {}"
  by (simp add: Learner_new_def toy_def split_def Let_def)

section \<open>Persistence\<close>

lemma serializeAndSaveClassifier_write_failure:
  assumes "fs_writeFile ext file (serializeClassifier ext L) = Some e"
  shows "promise (serializeAndSaveClassifier ext (Some file) L) = Rejected e"
    and "io_calls (serializeAndSaveClassifier ext (Some file) L)
           = [Call_toString, Call_writeFile file (serializeClassifier ext L)]"
  using assms by (simp_all add: serializeAndSaveClassifier_def reject_def resolve_def Let_def)

lemma loadAndDeserializeClassifier_read_failure:
  assumes "fs_readFile ext file = Inl e"
  shows "promise (loadAndDeserializeClassifier ext (Some file) L) = Rejected e"
    and "io_calls (loadAndDeserializeClassifier ext (Some file) L)
           = [Call_readFile file, Call_fromString None]"
  using assms
  by (simp_all add: loadAndDeserializeClassifier_def reject_def resolve_def Let_def
      split: sum.splits)

text \<open>
  C8: when the read fails, \<open>loadAndDeserializeClassifier\<close> rejects its promise with the
  I/O error and then goes on to deserialize the missing data: the callback has no
  \<open>return\<close> after \<open>reject(err)\<close>. Here the deserializer throws out of the callback.
\<close>

theorem loadAndDeserializeClassifier_after_read_failure:
  "fs_readFile toy ''missing.json'' = Inl IOFailure
   \<and> loadAndDeserializeClassifier toy (Some ''missing.json'') toy_learner
       = \<lparr>promise = Rejected IOFailure, uncaught = Some DeserializationFailure,
          io_calls = [Call_readFile ''missing.json'', Call_fromString None]\<rparr>"
  by (simp add: loadAndDeserializeClassifier_def deserializeClassifier_def toy_def reject_def)

end
